theory Spec2Isabelle
  imports Complex_Main
begin

section \<open>Python floats\<close>

text \<open>
  The program computes on Python floats. A float is modelled as a finite value or one
  of the three special values; the two zeros are one value. The special values follow
  IEEE 754 as Python exposes it: an operation on \<open>NaN\<close> gives \<open>NaN\<close>, every
  comparison with \<open>NaN\<close> is false, and \<open>inf - inf\<close> and \<open>inf / inf\<close> are \<open>NaN\<close>.

  Two arithmetics on the finite values follow. The operations \<open>py_add\<close>, \<open>py_sub\<close>,
  \<open>py_truediv\<close> and \<open>py_sum\<close> of this section compute exactly; the properties
  stated on them are those that no rounding can change. The operations \<open>f64_add\<close>,
  \<open>f64_sub\<close>, \<open>f64_truediv\<close> and \<open>f64_sum\<close> further down round every result to
  binary64, as the interpreter does; the properties that depend on the computed values
  are stated on them.
\<close>

datatype pyfloat = Fin real | PInf | NInf | NaN

datatype py_error = ZeroDivisionError | TypeError | IndexError

fun py_neg :: "pyfloat \<Rightarrow> pyfloat" where
  "py_neg (Fin x) = Fin (- x)"
| "py_neg PInf = NInf"
| "py_neg NInf = PInf"
| "py_neg NaN = NaN"

fun py_add :: "pyfloat \<Rightarrow> pyfloat \<Rightarrow> pyfloat" where
  "py_add (Fin x) (Fin y) = Fin (x + y)"
| "py_add NaN _ = NaN"
| "py_add _ NaN = NaN"
| "py_add PInf NInf = NaN"
| "py_add NInf PInf = NaN"
| "py_add PInf _ = PInf"
| "py_add NInf _ = NInf"
| "py_add (Fin x) PInf = PInf"
| "py_add (Fin x) NInf = NInf"

definition py_sub :: "pyfloat \<Rightarrow> pyfloat \<Rightarrow> pyfloat" where
  "py_sub a b = py_add a (py_neg b)"

fun py_abs :: "pyfloat \<Rightarrow> pyfloat" where
  "py_abs (Fin x) = Fin \<bar>x\<bar>"
| "py_abs PInf = PInf"
| "py_abs NInf = PInf"
| "py_abs NaN = NaN"

text \<open>\<open>a > b\<close> and \<open>a >= b\<close> on floats.\<close>

fun py_gt :: "pyfloat \<Rightarrow> pyfloat \<Rightarrow> bool" where
  "py_gt (Fin x) (Fin y) = (x > y)"
| "py_gt NaN _ = False"
| "py_gt _ NaN = False"
| "py_gt PInf PInf = False"
| "py_gt PInf _ = True"
| "py_gt NInf _ = False"
| "py_gt (Fin x) PInf = False"
| "py_gt (Fin x) NInf = True"

fun py_ge :: "pyfloat \<Rightarrow> pyfloat \<Rightarrow> bool" where
  "py_ge (Fin x) (Fin y) = (x \<ge> y)"
| "py_ge NaN _ = False"
| "py_ge _ NaN = False"
| "py_ge PInf _ = True"
| "py_ge NInf NInf = True"
| "py_ge NInf _ = False"
| "py_ge (Fin x) PInf = False"
| "py_ge (Fin x) NInf = True"


text \<open>
  The builtin \<open>max(a, b)\<close> keeps its first argument unless the second compares
  strictly greater, so \<open>max(a, nan)\<close> is \<open>a\<close>.
\<close>

definition py_max :: "pyfloat \<Rightarrow> pyfloat \<Rightarrow> pyfloat" where
  "py_max a b = (if py_gt b a then b else a)"

text \<open>Float division raises \<open>ZeroDivisionError\<close> on a zero divisor.\<close>

fun py_truediv :: "pyfloat \<Rightarrow> pyfloat \<Rightarrow> py_error + pyfloat" where
  "py_truediv a (Fin y) =
     (if y = 0 then Inl ZeroDivisionError
      else Inr (case a of
                  Fin x \<Rightarrow> Fin (x / y)
                | PInf \<Rightarrow> (if 0 < y then PInf else NInf)
                | NInf \<Rightarrow> (if 0 < y then NInf else PInf)
                | NaN \<Rightarrow> NaN))"
| "py_truediv a NaN = Inr NaN"
| "py_truediv (Fin x) PInf = Inr (Fin 0)"
| "py_truediv (Fin x) NInf = Inr (Fin 0)"
| "py_truediv NaN PInf = Inr NaN"
| "py_truediv NaN NInf = Inr NaN"
| "py_truediv PInf PInf = Inr NaN"
| "py_truediv PInf NInf = Inr NaN"
| "py_truediv NInf PInf = Inr NaN"
| "py_truediv NInf NInf = Inr NaN"

text \<open>The builtin \<open>sum\<close>: a left fold of \<open>+\<close> starting at \<open>0\<close>.\<close>

definition py_sum :: "pyfloat list \<Rightarrow> pyfloat" where
  "py_sum xs = foldl py_add (Fin 0) xs"

section \<open>Configuration and detector state\<close>

text \<open>The module constants of \<open>light_lock.py\<close>.\<close>

record config =
  DEBUG :: bool
  HZ :: pyfloat
  MAX_SECONDS :: pyfloat
  JUMP_RATE :: pyfloat
  DERIV_WINDOW :: int
  EPS :: pyfloat
  LOCKSCREEN_ON_JUMP :: bool

definition default_config :: config where
  "default_config =
     \<lparr> DEBUG = True, HZ = Fin 25, MAX_SECONDS = Fin 120, JUMP_RATE = Fin 1,
       DERIV_WINDOW = 6, EPS = Fin 1, LOCKSCREEN_ON_JUMP = False \<rparr>"

text \<open>
  The local variables of \<open>run_headless\<close> that live across iterations: the deque
  \<open>deriv\<close> (oldest entry first) and \<open>last_t\<close>, \<open>last_y\<close>, which are \<open>None\<close>
  until the first sample.
\<close>

record detector =
  deriv :: "pyfloat list"
  last_t :: "pyfloat option"
  last_y :: "pyfloat option"

text \<open>\<open>collections.deque(maxlen=max(2, DERIV_WINDOW))\<close>, \<open>last_t = last_y = None\<close>.\<close>

definition maxlen :: "config \<Rightarrow> nat" where
  "maxlen cfg = nat (max 2 (DERIV_WINDOW cfg))"

definition init_detector :: detector where
  "init_detector = \<lparr> deriv = [], last_t = None, last_y = None \<rparr>"

text \<open>
  \<open>deque.append\<close> on a bounded deque: the item is added on the right, and when the
  deque is then longer than \<open>maxlen\<close> one item is dropped on the left.
\<close>

definition deque_append :: "nat \<Rightarrow> 'a list \<Rightarrow> 'a \<Rightarrow> 'a list" where
  "deque_append m w x = (let w' = w @ [x] in if length w' > m then tl w' else w')"

section \<open>The detection step of \<open>run_headless\<close>\<close>

text \<open>
  Lines 41 to 53 of the loop body, for the sample \<open>(t, y)\<close>: the result is the new
  state, \<open>is_jump\<close> and the value of \<open>rate\<close> when the step computed one.
\<close>

definition headless_detect ::
  "config \<Rightarrow> detector \<Rightarrow> pyfloat \<Rightarrow> pyfloat \<Rightarrow> py_error + (detector \<times> bool \<times> pyfloat option)" where
  "headless_detect cfg st t y =
     (case last_t st of
        None \<Rightarrow> Inr (st\<lparr>last_t := Some t, last_y := Some y\<rparr>, False, None)
      | Some lt \<Rightarrow>
          (let dt = py_max (Fin (1 / 1000000)) (py_sub t lt) in
           case last_y st of
             None \<Rightarrow> Inl TypeError
           | Some ly \<Rightarrow>
               (let dy = py_sub y ly in
                if py_ge (py_abs dy) (EPS cfg) then
                  (case py_truediv dy dt of
                     Inl e \<Rightarrow> Inl e
                   | Inr d \<Rightarrow>
                       (let w = deque_append (maxlen cfg) (deriv st) d in
                        case py_truediv (py_sum w) (Fin (real (length w))) of
                          Inl e \<Rightarrow> Inl e
                        | Inr rate \<Rightarrow>
                            Inr (st\<lparr>deriv := w, last_t := Some t, last_y := Some y\<rparr>,
                                 py_ge (py_abs rate) (JUMP_RATE cfg), Some rate)))
                else Inr (st\<lparr>last_t := Some t, last_y := Some y\<rparr>, False, None))))"

text \<open>
  The detector fed a sequence of samples: the detection step iterated, with the
  verdict \<open>(is_jump, rate)\<close> of every step. An exception ends the run.
\<close>

fun detect_all ::
  "config \<Rightarrow> detector \<Rightarrow> (pyfloat \<times> pyfloat) list \<Rightarrow>
     py_error + (detector \<times> (bool \<times> pyfloat option) list)" where
  "detect_all cfg st [] = Inr (st, [])"
| "detect_all cfg st ((t, y) # ss) =
     (case headless_detect cfg st t y of
        Inl e \<Rightarrow> Inl e
      | Inr (st', v) \<Rightarrow>
          (case detect_all cfg st' ss of
             Inl e \<Rightarrow> Inl e
           | Inr (st'', vs) \<Rightarrow> Inr (st'', v # vs)))"

section \<open>The trigger action and the headless loop\<close>

text \<open>
  What the program does to the outside: the \<open>[JUMP]\<close> line on standard output, the
  two messages on standard error, and the call of \<open>pmset\<close>. \<open>subprocess.run\<close>
  either returns, with the exit status of \<open>pmset\<close>, or raises an exception with some
  message. With \<open>check=False\<close> the exit status is not examined.
\<close>

datatype event =
    JumpLine pyfloat pyfloat pyfloat
  | LockLine
  | PmsetCall
  | PmsetErrorLine string

datatype run_result = Returned int | Raised string

text \<open>
  \<open>do_lockscreen\<close>: the exception of the call is caught and printed, and
  \<open>sys.exit(0)\<close> follows in both cases. The result is the output and the exit code.
\<close>

definition do_lockscreen :: "run_result \<Rightarrow> event list \<times> int" where
  "do_lockscreen r =
     (case r of
        Returned status \<Rightarrow> ([PmsetCall], 0)
      | Raised e \<Rightarrow> ([PmsetCall, PmsetErrorLine e], 0))"

datatype 'a outcome = Continue 'a | Exit int | Raise py_error

text \<open>One iteration of \<open>while True\<close> in \<open>run_headless\<close> (the sleep apart).\<close>

definition run_headless_tick ::
  "config \<Rightarrow> run_result \<Rightarrow> detector \<Rightarrow> pyfloat \<times> pyfloat \<Rightarrow> event list \<times> detector outcome" where
  "run_headless_tick cfg env st s =
     (case headless_detect cfg st (fst s) (snd s) of
        Inl e \<Rightarrow> ([], Raise e)
      | Inr (st', is_jump, rate) \<Rightarrow>
          (let out = (case rate of
                        Some r \<Rightarrow> if is_jump then [JumpLine (fst s) (snd s) r] else []
                      | None \<Rightarrow> [])
           in if LOCKSCREEN_ON_JUMP cfg \<and> is_jump
              then (out @ [LockLine] @ fst (do_lockscreen env), Exit (snd (do_lockscreen env)))
              else (out, Continue st')))"

text \<open>
  The loop over the samples the sensor and the clock deliver. It has no exit of its
  own: on a finite prefix of the samples it is still running, unless the trigger action
  exited or an exception was raised.
\<close>

datatype final = Running detector | Exited int | Failed py_error

fun headless_loop ::
  "config \<Rightarrow> run_result \<Rightarrow> detector \<Rightarrow> (pyfloat \<times> pyfloat) list \<Rightarrow> event list \<times> final" where
  "headless_loop cfg env st [] = ([], Running st)"
| "headless_loop cfg env st (s # ss) =
     (case run_headless_tick cfg env st s of
        (ev, Continue st') \<Rightarrow> (ev @ fst (headless_loop cfg env st' ss), snd (headless_loop cfg env st' ss))
      | (ev, Exit c) \<Rightarrow> (ev, Exited c)
      | (ev, Raise e) \<Rightarrow> (ev, Failed e))"

text \<open>
  \<open>run_headless\<close>: the deque and \<open>last_t = last_y = None\<close>, the period
  \<open>1.0 / max(1e-3, HZ)\<close>, then the loop.
\<close>

definition period :: "config \<Rightarrow> py_error + pyfloat" where
  "period cfg = py_truediv (Fin 1) (py_max (Fin (1 / 1000)) (HZ cfg))"

definition run_headless ::
  "config \<Rightarrow> run_result \<Rightarrow> (pyfloat \<times> pyfloat) list \<Rightarrow> event list \<times> final" where
  "run_headless cfg env ss =
     (case period cfg of
        Inl e \<Rightarrow> ([], Failed e)
      | Inr p \<Rightarrow> headless_loop cfg env init_detector ss)"

section \<open>The \<open>update\<close> closure of \<open>run_with_plot\<close>\<close>

text \<open>
  The closure keeps, besides the detector's variables, the plotted history \<open>xs\<close>,
  \<open>ys\<close> and the jump points \<open>jx\<close>, \<open>jy\<close>. Its detection (lines 88 to 103) is
  given below, in binary64 arithmetic.
\<close>

record plot_state = detector +
  xs :: "pyfloat list"
  ys :: "pyfloat list"
  jx :: "pyfloat list"
  jy :: "pyfloat list"

definition init_plot :: plot_state where
  "init_plot = \<lparr> deriv = [], last_t = None, last_y = None, xs = [], ys = [], jx = [], jy = [] \<rparr>"

section \<open>Binary64 arithmetic\<close>

text \<open>
  A Python float is an IEEE 754 binary64 value, and \<open>+\<close>, \<open>-\<close> and \<open>/\<close> return
  the exact result rounded to the nearest such value, ties to the even significand.
  \<open>pow2 k\<close> is \<open>2\<close> to the power \<open>k\<close>. For \<open>x > 0\<close>, \<open>f64_exponent x\<close> is the
  \<open>e\<close> with \<open>2^e <= x < 2^(e+1)\<close>, kept between \<open>-1022\<close> (below it the values are
  subnormal and share one spacing) and \<open>1024\<close> (from there on the result overflows).
\<close>

definition pow2 :: "int \<Rightarrow> real" where
  "pow2 k = (if 0 \<le> k then 2 ^ nat k else 1 / 2 ^ nat (- k))"

function exp_up :: "real \<Rightarrow> int \<Rightarrow> int" where
  "exp_up x e = (if x < 2 \<or> 1024 \<le> e then e else exp_up (x / 2) (e + 1))"
  by pat_completeness auto
termination
  by (relation "measure (\<lambda>(x, e). nat (1024 - e))") auto

function exp_down :: "real \<Rightarrow> int \<Rightarrow> int" where
  "exp_down x e = (if 1 \<le> x \<or> e \<le> - 1022 then e else exp_down (2 * x) (e - 1))"
  by pat_completeness auto
termination
  by (relation "measure (\<lambda>(x, e). nat (e + 1022))") auto

definition f64_exponent :: "real \<Rightarrow> int" where
  "f64_exponent x = (if 1 \<le> x then exp_up x 0 else exp_down x 0)"

text \<open>The nearest integer, a tie going to the even one.\<close>

definition round_half_even :: "real \<Rightarrow> int" where
  "round_half_even x =
     (let f = \<lfloor>x\<rfloor>; d = x - real_of_int f
      in if d < 1 / 2 then f else if 1 / 2 < d then f + 1 else if even f then f else f + 1)"

text \<open>
  The binary64 value nearest to the real \<open>x\<close>: \<open>x\<close> is rounded to a multiple of the
  spacing \<open>2^(e-52)\<close> at its exponent \<open>e\<close>, and a result of magnitude \<open>2^1024\<close> or
  more is an infinity.
\<close>

definition round_f64 :: "real \<Rightarrow> pyfloat" where
  "round_f64 x =
     (if x = 0 then Fin 0
      else (let u = pow2 (f64_exponent \<bar>x\<bar> - 52);
                r = real_of_int (round_half_even (x / u)) * u
            in if pow2 1024 \<le> \<bar>r\<bar> then (if 0 < x then PInf else NInf) else Fin r))"

text \<open>
  Float addition, subtraction and division. Only the case of two finite operands
  differs from the exact operations.
\<close>

fun f64_add :: "pyfloat \<Rightarrow> pyfloat \<Rightarrow> pyfloat" where
  "f64_add (Fin x) (Fin y) = round_f64 (x + y)"
| "f64_add a b = py_add a b"

definition f64_sub :: "pyfloat \<Rightarrow> pyfloat \<Rightarrow> pyfloat" where
  "f64_sub a b = f64_add a (py_neg b)"

fun f64_truediv :: "pyfloat \<Rightarrow> pyfloat \<Rightarrow> py_error + pyfloat" where
  "f64_truediv (Fin x) (Fin y) =
     (if y = 0 then Inl ZeroDivisionError else Inr (round_f64 (x / y)))"
| "f64_truediv a b = py_truediv a b"

text \<open>
  The builtin \<open>sum\<close> on the deque: the floats are added from left to right, starting
  at \<open>0\<close>, and every partial sum is rounded. (CPython from 3.12 on adds a correction
  term at the end; on the windows evaluated below it gives the same sums.)
\<close>

definition f64_sum :: "pyfloat list \<Rightarrow> pyfloat" where
  "f64_sum ds = foldl f64_add (Fin 0) ds"

text \<open>\<open>x\<close> is a binary64 value.\<close>

definition is_f64 :: "real \<Rightarrow> bool" where
  "is_f64 x = (round_f64 x = Fin x)"

text \<open>The literal \<open>1e-6\<close>: the binary64 value nearest to one millionth.\<close>

definition dt_min :: pyfloat where
  "dt_min = Fin (4722366482869645 / 2 ^ 72)"

section \<open>The detection in binary64 arithmetic\<close>

text \<open>
  Lines 41 to 53 of \<open>run_headless\<close> again, with every \<open>-\<close>, \<open>/\<close> and \<open>sum\<close>
  rounded as the interpreter rounds it.
\<close>

definition headless_detect_f64 ::
  "config \<Rightarrow> detector \<Rightarrow> pyfloat \<Rightarrow> pyfloat \<Rightarrow> py_error + (detector \<times> bool \<times> pyfloat option)" where
  "headless_detect_f64 cfg st t y =
     (case last_t st of
        None \<Rightarrow> Inr (st\<lparr>last_t := Some t, last_y := Some y\<rparr>, False, None)
      | Some lt \<Rightarrow>
          (let dt = py_max dt_min (f64_sub t lt) in
           case last_y st of
             None \<Rightarrow> Inl TypeError
           | Some ly \<Rightarrow>
               (let dy = f64_sub y ly in
                if py_ge (py_abs dy) (EPS cfg) then
                  (case f64_truediv dy dt of
                     Inl e \<Rightarrow> Inl e
                   | Inr d \<Rightarrow>
                       (let w = deque_append (maxlen cfg) (deriv st) d in
                        case f64_truediv (f64_sum w) (Fin (real (length w))) of
                          Inl e \<Rightarrow> Inl e
                        | Inr rate \<Rightarrow>
                            Inr (st\<lparr>deriv := w, last_t := Some t, last_y := Some y\<rparr>,
                                 py_ge (py_abs rate) (JUMP_RATE cfg), Some rate)))
                else Inr (st\<lparr>last_t := Some t, last_y := Some y\<rparr>, False, None))))"

fun detect_all_f64 ::
  "config \<Rightarrow> detector \<Rightarrow> (pyfloat \<times> pyfloat) list \<Rightarrow>
     py_error + (detector \<times> (bool \<times> pyfloat option) list)" where
  "detect_all_f64 cfg st [] = Inr (st, [])"
| "detect_all_f64 cfg st ((t, y) # ss) =
     (case headless_detect_f64 cfg st t y of
        Inl e \<Rightarrow> Inl e
      | Inr (st', v) \<Rightarrow>
          (case detect_all_f64 cfg st' ss of
             Inl e \<Rightarrow> Inl e
           | Inr (st'', vs) \<Rightarrow> Inr (st'', v # vs)))"

text \<open>
  Lines 88 to 103 of the closure \<open>update\<close>: the clock reading \<open>tm\<close> is taken
  relative to the start time \<open>t0\<close>, the detection is the same, and a jump is recorded
  in \<open>jx\<close>, \<open>jy\<close>.
\<close>

definition plot_detect_f64 ::
  "config \<Rightarrow> pyfloat \<Rightarrow> plot_state \<Rightarrow> pyfloat \<Rightarrow> pyfloat \<Rightarrow>
     py_error + (plot_state \<times> bool \<times> pyfloat option)" where
  "plot_detect_f64 cfg t0 ps tm y =
     (let t = f64_sub tm t0 in
      case last_t ps of
        None \<Rightarrow> Inr (ps\<lparr>last_t := Some t, last_y := Some y\<rparr>, False, None)
      | Some lt \<Rightarrow>
          (let dt = py_max dt_min (f64_sub t lt) in
           case last_y ps of
             None \<Rightarrow> Inl TypeError
           | Some ly \<Rightarrow>
               (let dy = f64_sub y ly in
                if py_ge (py_abs dy) (EPS cfg) then
                  (case f64_truediv dy dt of
                     Inl e \<Rightarrow> Inl e
                   | Inr d \<Rightarrow>
                       (let w = deque_append (maxlen cfg) (deriv ps) d in
                        case f64_truediv (f64_sum w) (Fin (real (length w))) of
                          Inl e \<Rightarrow> Inl e
                        | Inr rate \<Rightarrow>
                            if py_ge (py_abs rate) (JUMP_RATE cfg)
                            then Inr (ps\<lparr>deriv := w, last_t := Some t, last_y := Some y,
                                         jx := jx ps @ [t], jy := jy ps @ [y]\<rparr>, True, Some rate)
                            else Inr (ps\<lparr>deriv := w, last_t := Some t, last_y := Some y\<rparr>,
                                      False, Some rate)))
                else Inr (ps\<lparr>last_t := Some t, last_y := Some y\<rparr>, False, None))))"

fun plot_detect_all_f64 ::
  "config \<Rightarrow> pyfloat \<Rightarrow> plot_state \<Rightarrow> (pyfloat \<times> pyfloat) list \<Rightarrow>
     py_error + (plot_state \<times> (bool \<times> pyfloat option) list)" where
  "plot_detect_all_f64 cfg t0 ps [] = Inr (ps, [])"
| "plot_detect_all_f64 cfg t0 ps ((tm, y) # ss) =
     (case plot_detect_f64 cfg t0 ps tm y of
        Inl e \<Rightarrow> Inl e
      | Inr (ps', v) \<Rightarrow>
          (case plot_detect_all_f64 cfg t0 ps' ss of
             Inl e \<Rightarrow> Inl e
           | Inr (ps'', vs) \<Rightarrow> Inr (ps'', v # vs)))"

section \<open>Notions used in the statements\<close>

text \<open>
  In every state the loop reaches, \<open>last_t\<close> and \<open>last_y\<close> are set together
  (line 30 and line 53 assign both).
\<close>

definition paired :: "detector \<Rightarrow> bool" where
  "paired st = ((last_t st = None) = (last_y st = None))"






text \<open>
  A sequence of readings after the clock reading \<open>lm\<close> on which the closure computes
  the same differences of timestamps as \<open>run_headless\<close>:
  \<open>(tm - t0) - (lm - t0)\<close> and \<open>tm - lm\<close> are the same float at every reading.
\<close>

fun same_dt :: "pyfloat \<Rightarrow> pyfloat \<Rightarrow> (pyfloat \<times> pyfloat) list \<Rightarrow> bool" where
  "same_dt t0 lm [] = True"
| "same_dt t0 lm ((tm, y) # ss) =
     (f64_sub (f64_sub tm t0) (f64_sub lm t0) = f64_sub tm lm \<and> same_dt t0 tm ss)"

text \<open>
  The closure's detector variables against those of \<open>run_headless\<close> on the same
  readings: the same window and \<open>last_y\<close>, and \<open>last_t\<close> less the start time.
\<close>

definition same_detector_f64 :: "pyfloat \<Rightarrow> plot_state \<Rightarrow> detector \<Rightarrow> bool" where
  "same_detector_f64 t0 ps st =
     (deriv ps = deriv st \<and> last_y ps = last_y st \<and>
      last_t ps = map_option (\<lambda>t. f64_sub t t0) (last_t st))"

section \<open>Floats, the clamp and the window\<close>


lemma clamp_dt_finite:
  "py_max (Fin c) (py_sub (Fin a) (Fin b)) = Fin (max c (a - b))"
  by (simp add: py_max_def py_sub_def max_def)

lemma truediv_clamped: "0 < c \<Longrightarrow> \<exists>d. py_truediv dy (py_max (Fin c) b) = Inr d"
  by (cases b; cases dy) (auto simp: py_max_def)

lemma maxlen_pos: "0 < maxlen cfg"
  by (simp add: maxlen_def)

lemma deque_append_nonempty: "0 < m \<Longrightarrow> deque_append m w x \<noteq> []"
  by (cases w) (auto simp: deque_append_def Let_def)

lemma deque_append_length: "length w \<le> m \<Longrightarrow> 0 < m \<Longrightarrow> length (deque_append m w x) \<le> m"
  by (cases w) (auto simp: deque_append_def Let_def)


lemma mean_defined:
  "\<exists>r. py_truediv (py_sum (deque_append (maxlen cfg) w d))
         (Fin (real (length (deque_append (maxlen cfg) w d)))) = Inr r"
  using deque_append_nonempty [OF maxlen_pos, of cfg w d] by simp

lemma period_defined: "\<exists>p. period cfg = Inr p"
  using truediv_clamped [of "1 / 1000" "Fin 1" "HZ cfg"] by (simp add: period_def)

section \<open>The detection step\<close>

lemma paired_init: "paired init_detector"
  by (simp add: paired_def init_detector_def)



lemma detect_step_total:
  assumes "paired st"
  shows "\<exists>st' j r. headless_detect cfg st t y = Inr (st', j, r) \<and> paired st'
     \<and> last_t st' = Some t \<and> last_y st' = Some y"
proof (cases "last_t st")
  case None
  then show ?thesis by (auto simp: headless_detect_def paired_def)
next
  case (Some lt)
  with assms obtain ly where ly: "last_y st = Some ly" by (auto simp: paired_def)
  obtain d where d: "py_truediv (py_sub y ly) (py_max (Fin (1 / 1000000)) (py_sub t lt)) = Inr d"
    using truediv_clamped [of "1 / 1000000"] by auto
  obtain r where r: "py_truediv (py_sum (deque_append (maxlen cfg) (deriv st) d))
       (Fin (real (length (deque_append (maxlen cfg) (deriv st) d)))) = Inr r"
    using mean_defined by blast
  show ?thesis
    using Some ly d r
    by (auto simp: headless_detect_def paired_def Let_def simp del: py_truediv.simps)
qed

lemma detect_step_window:
  assumes "headless_detect cfg st t y = Inr (st', j, r)" and "length (deriv st) \<le> maxlen cfg"
  shows "length (deriv st') \<le> maxlen cfg"
  using assms deque_append_length [OF assms(2) maxlen_pos]
  by (auto simp: headless_detect_def Let_def simp del: py_truediv.simps
      split: option.splits if_splits sum.splits)

lemma detect_all_total:
  assumes "paired st" and "length (deriv st) \<le> maxlen cfg"
  shows "\<exists>st' vs. detect_all cfg st ss = Inr (st', vs) \<and> paired st' \<and>
           length (deriv st') \<le> maxlen cfg \<and> length vs = length ss"
  using assms
proof (induction ss arbitrary: st)
  case Nil
  then show ?case by simp
next
  case (Cons s ss)
  obtain t y where s: "s = (t, y)" by (cases s)
  obtain st1 j r where step: "headless_detect cfg st t y = Inr (st1, j, r)" and p1: "paired st1"
    using detect_step_total [OF Cons.prems(1)] by blast
  have w1: "length (deriv st1) \<le> maxlen cfg"
    by (rule detect_step_window [OF step Cons.prems(2)])
  obtain st' vs where rest: "detect_all cfg st1 ss = Inr (st', vs)" and inv: "paired st'"
      "length (deriv st') \<le> maxlen cfg" "length vs = length ss"
    using Cons.IH [OF p1 w1] by blast
  show ?case using s step rest inv by simp
qed


section \<open>The loop\<close>

lemma tick_paired:
  assumes "paired st"
  shows "(\<exists>ev st'. run_headless_tick cfg env st s = (ev, Continue st') \<and> paired st') \<or>
         (\<exists>ev c. run_headless_tick cfg env st s = (ev, Exit c))"
proof -
  obtain st' j r where "headless_detect cfg st (fst s) (snd s) = Inr (st', j, r)" and "paired st'"
    using detect_step_total [OF assms, of cfg "fst s" "snd s"] by blast
  then show ?thesis by (simp add: run_headless_tick_def Let_def)
qed

lemma loop_never_fails:
  assumes "paired st"
  shows "snd (headless_loop cfg env st ss) \<noteq> Failed e"
  using assms
proof (induction ss arbitrary: st)
  case Nil
  then show ?case by simp
next
  case (Cons s ss)
  from tick_paired [OF Cons.prems, of cfg env s] show ?case
  proof
    assume "\<exists>ev st'. run_headless_tick cfg env st s = (ev, Continue st') \<and> paired st'"
    then obtain ev st' where "run_headless_tick cfg env st s = (ev, Continue st')" and "paired st'"
      by blast
    then show ?thesis using Cons.IH [of st'] by simp
  next
    assume "\<exists>ev c. run_headless_tick cfg env st s = (ev, Exit c)"
    then show ?thesis by auto
  qed
qed

section \<open>The detection in binary64 arithmetic: lemmas\<close>

text \<open>The definitions a concrete run is evaluated with.\<close>

lemmas f64_eval = round_f64_def f64_exponent_def pow2_def round_half_even_def Let_def
  f64_sub_def f64_sum_def dt_min_def py_max_def maxlen_def deque_append_def
  default_config_def init_detector_def init_plot_def

lemma f64_truediv_clamped: "\<exists>d. f64_truediv dy (py_max dt_min b) = Inr d"
  by (cases b; cases dy) (auto simp: py_max_def dt_min_def)

lemma f64_mean_defined:
  "\<exists>r. f64_truediv (f64_sum (deque_append (maxlen cfg) w d))
         (Fin (real (length (deque_append (maxlen cfg) w d)))) = Inr r"
  using deque_append_nonempty [OF maxlen_pos, of cfg w d]
  by (cases "f64_sum (deque_append (maxlen cfg) w d)") simp_all

lemma detect_f64_first:
  "headless_detect_f64 cfg init_detector t0 y0 =
     Inr (\<lparr> deriv = [], last_t = Some t0, last_y = Some y0 \<rparr>, False, None)"
  by (simp add: headless_detect_f64_def init_detector_def)

lemma plot_detect_f64_first:
  "plot_detect_f64 cfg t0 init_plot tm y0 =
     Inr (\<lparr> deriv = [], last_t = Some (f64_sub tm t0), last_y = Some y0,
            xs = [], ys = [], jx = [], jy = [] \<rparr>, False, None)"
  by (simp add: plot_detect_f64_def init_plot_def)

lemma detect_f64_qualifying:
  assumes "last_t st = Some lt" and "last_y st = Some ly"
    and "py_ge (py_abs (f64_sub y ly)) (EPS cfg)"
  shows "\<exists>d rate.
           f64_truediv (f64_sub y ly) (py_max dt_min (f64_sub t lt)) = Inr d \<and>
           f64_truediv (f64_sum (deque_append (maxlen cfg) (deriv st) d))
             (Fin (real (length (deque_append (maxlen cfg) (deriv st) d)))) = Inr rate \<and>
           headless_detect_f64 cfg st t y =
             Inr (st\<lparr>deriv := deque_append (maxlen cfg) (deriv st) d,
                     last_t := Some t, last_y := Some y\<rparr>,
                  py_ge (py_abs rate) (JUMP_RATE cfg), Some rate)"
proof -
  obtain d where d: "f64_truediv (f64_sub y ly) (py_max dt_min (f64_sub t lt)) = Inr d"
    using f64_truediv_clamped [of "f64_sub y ly" "f64_sub t lt"] by auto
  obtain rate where rate: "f64_truediv (f64_sum (deque_append (maxlen cfg) (deriv st) d))
      (Fin (real (length (deque_append (maxlen cfg) (deriv st) d)))) = Inr rate"
    using f64_mean_defined [of cfg "deriv st" d] by auto
  have "headless_detect_f64 cfg st t y =
      Inr (st\<lparr>deriv := deque_append (maxlen cfg) (deriv st) d, last_t := Some t, last_y := Some y\<rparr>,
           py_ge (py_abs rate) (JUMP_RATE cfg), Some rate)"
    using assms d rate
    by (simp add: headless_detect_f64_def Let_def del: f64_truediv.simps)
  with d rate show ?thesis by blast
qed

lemma detect_f64_total:
  assumes "paired st"
  shows "\<exists>st' v. headless_detect_f64 cfg st t y = Inr (st', v) \<and> paired st'"
proof (cases "last_t st")
  case None
  then show ?thesis by (auto simp: headless_detect_f64_def paired_def)
next
  case (Some lt)
  with assms obtain ly where ly: "last_y st = Some ly" by (auto simp: paired_def)
  show ?thesis
  proof (cases "py_ge (py_abs (f64_sub y ly)) (EPS cfg)")
    case True
    from detect_f64_qualifying [OF Some ly True, of t] show ?thesis
      by (auto simp: paired_def)
  next
    case False
    then show ?thesis using Some ly
      by (auto simp: headless_detect_f64_def Let_def paired_def simp del: f64_truediv.simps)
  qed
qed

lemma detect_all_f64_total:
  assumes "paired st"
  shows "\<exists>st' vs. detect_all_f64 cfg st ss = Inr (st', vs) \<and> length vs = length ss"
  using assms
proof (induction ss arbitrary: st)
  case Nil
  then show ?case by simp
next
  case (Cons s ss)
  obtain t y where s: "s = (t, y)" by (cases s)
  obtain st1 v where step: "headless_detect_f64 cfg st t y = Inr (st1, v)" and p1: "paired st1"
    using detect_f64_total [OF Cons.prems, of cfg t y] by blast
  obtain st' vs where "detect_all_f64 cfg st1 ss = Inr (st', vs)" and "length vs = length ss"
    using Cons.IH [OF p1] by blast
  then show ?case using s step by simp
qed

lemma plot_f64_step_sim:
  assumes "same_detector_f64 t0 ps st" and "last_t st = Some lm"
    and "f64_sub (f64_sub tm t0) (f64_sub lm t0) = f64_sub tm lm"
    and "headless_detect_f64 cfg st tm y = Inr (st', v)"
  shows "\<exists>ps'. plot_detect_f64 cfg t0 ps tm y = Inr (ps', v) \<and> same_detector_f64 t0 ps' st' \<and>
           last_t st' = Some tm"
proof -
  have lt: "last_t ps = Some (f64_sub lm t0)"
    using assms(1,2) by (simp add: same_detector_f64_def)
  have w: "deriv ps = deriv st" and ly: "last_y ps = last_y st"
    using assms(1) by (simp_all add: same_detector_f64_def)
  show ?thesis
    using assms(2,3,4) lt w ly
    by (auto simp: same_detector_f64_def headless_detect_f64_def plot_detect_f64_def Let_def
        simp del: f64_truediv.simps split: option.splits if_splits sum.splits)
qed

lemma plot_f64_run_sim:
  assumes "same_detector_f64 t0 ps st" and "last_t st = Some lm" and "same_dt t0 lm ss"
    and "detect_all_f64 cfg st ss = Inr (st', vs)"
  shows "\<exists>ps'. plot_detect_all_f64 cfg t0 ps ss = Inr (ps', vs) \<and> same_detector_f64 t0 ps' st'"
  using assms
proof (induction ss arbitrary: ps st vs lm)
  case Nil
  then show ?case by simp
next
  case (Cons s ss)
  obtain tm y where s: "s = (tm, y)" by (cases s)
  have dt: "f64_sub (f64_sub tm t0) (f64_sub lm t0) = f64_sub tm lm" and rest_dt: "same_dt t0 tm ss"
    using Cons.prems(3) s by simp_all
  obtain st1 v vs1 where step: "headless_detect_f64 cfg st tm y = Inr (st1, v)"
      and rest: "detect_all_f64 cfg st1 ss = Inr (st', vs1)" and vs: "vs = v # vs1"
    using Cons.prems(4) s by (auto split: sum.splits prod.splits)
  obtain ps1 where pstep: "plot_detect_f64 cfg t0 ps tm y = Inr (ps1, v)"
      and rel: "same_detector_f64 t0 ps1 st1" and l1: "last_t st1 = Some tm"
    using plot_f64_step_sim [OF Cons.prems(1,2) dt step] by blast
  obtain ps' where "plot_detect_all_f64 cfg t0 ps1 ss = Inr (ps', vs1)"
      and "same_detector_f64 t0 ps' st'"
    using Cons.IH [OF rel l1 rest_dt rest] by blast
  then show ?case using s pstep vs by simp
qed

text \<open>
  When the subtractions of the start time are exact, the two paths compute the same
  differences of timestamps.
\<close>

lemma exact_shift_same_dt:
  assumes "f64_sub (Fin a) (Fin c) = Fin (a - c)" and "f64_sub (Fin b) (Fin c) = Fin (b - c)"
  shows "f64_sub (f64_sub (Fin a) (Fin c)) (f64_sub (Fin b) (Fin c)) = f64_sub (Fin a) (Fin b)"
proof -
  have "a - c + - (b - c) = a + - b" by simp
  then show ?thesis using assms by (simp add: f64_sub_def)
qed




section \<open>The claims\<close>




text \<open>
  C2, as the code has it: the deque is created with \<open>maxlen = max(2, DERIV_WINDOW)\<close>,
  so after any sequence of samples the window holds at most \<open>max(2, DERIV_WINDOW)\<close>
  entries, which is \<open>DERIV_WINDOW\<close> for the module's value 6 and for every value of at
  least 2.
\<close>

theorem window_bound:
  "\<exists>st vs. detect_all cfg init_detector ss = Inr (st, vs) \<and>
     int (length (deriv st)) \<le> max 2 (DERIV_WINDOW cfg)"
proof -
  have "length (deriv init_detector) \<le> maxlen cfg" by (simp add: init_detector_def)
  then obtain st vs where "detect_all cfg init_detector ss = Inr (st, vs)"
      and "length (deriv st) \<le> maxlen cfg"
    using detect_all_total [OF paired_init] by blast
  then show ?thesis by (auto simp: maxlen_def)
qed

theorem window_bound_witness:
  "\<exists>st vs. detect_all default_config init_detector
      [(Fin 0, Fin 100), (Fin 1, Fin 102), (Fin 2, Fin 104), (Fin 3, Fin 106), (Fin 4, Fin 108),
       (Fin 5, Fin 110), (Fin 6, Fin 112), (Fin 7, Fin 114)] = Inr (st, vs) \<and>
     int (length (deriv st)) \<le> max 2 (DERIV_WINDOW default_config)"
  by (rule window_bound)

text \<open>
  C2 as stated fails for a configuration with \<open>DERIV_WINDOW = 1\<close>: after two
  qualifying updates the window holds two entries.
\<close>

theorem window_bound_counterexample:
  "detect_all (default_config\<lparr>DERIV_WINDOW := 1\<rparr>) init_detector
     [(Fin 0, Fin 100), (Fin 1, Fin 50), (Fin 2, Fin 100)] =
     Inr (\<lparr>deriv = [Fin (- 50), Fin 50], last_t = Some (Fin 2), last_y = Some (Fin 100)\<rparr>,
          [(False, None), (True, Some (Fin (- 50))), (False, Some (Fin 0))]) \<and>
   \<not> int (length (deriv \<lparr>deriv = [Fin (- 50), Fin 50], last_t = Some (Fin 2),
                           last_y = Some (Fin 100)\<rparr>))
       \<le> DERIV_WINDOW (default_config\<lparr>DERIV_WINDOW := 1\<rparr>)"
  by (simp add: default_config_def init_detector_def headless_detect_def py_sub_def py_max_def
      maxlen_def deque_append_def py_sum_def)

text \<open>
  C3, as the code has it: no sample is rejected. For every timestamp and value, finite
  or not, the step raises nothing and overwrites \<open>last_t\<close> and \<open>last_y\<close> with the
  sample; when the value is \<open>NaN\<close> the window is left unchanged and no jump is
  signalled (the comparison \<open>abs(dy) >= EPS\<close> is false).
\<close>

theorem nonfinite_sample_not_rejected:
  assumes "paired st"
  shows "\<exists>st' j r. headless_detect cfg st t y = Inr (st', j, r) \<and>
           last_t st' = Some t \<and> last_y st' = Some y \<and>
           (y = NaN \<longrightarrow> deriv st' = deriv st \<and> \<not> j)"
proof -
  obtain st' j r where step: "headless_detect cfg st t y = Inr (st', j, r)"
      and l: "last_t st' = Some t" "last_y st' = Some y"
    using detect_step_total [OF assms] by blast
  have "deriv st' = deriv st \<and> \<not> j" if "y = NaN"
    using step that
    by (auto simp: headless_detect_def py_sub_def Let_def simp del: py_truediv.simps
        split: option.splits)
  with step l show ?thesis by blast
qed

theorem nonfinite_sample_not_rejected_witness:
  "paired \<lparr>deriv = [Fin 7], last_t = Some (Fin 0), last_y = Some (Fin 100)\<rparr> \<and>
   headless_detect default_config \<lparr>deriv = [Fin 7], last_t = Some (Fin 0), last_y = Some (Fin 100)\<rparr>
     (Fin 1) NaN =
     Inr (\<lparr>deriv = [Fin 7], last_t = Some (Fin 1), last_y = Some NaN\<rparr>, False, None)"
  using nonfinite_sample_not_rejected
    [of "\<lparr>deriv = [Fin 7], last_t = Some (Fin 0), last_y = Some (Fin 100)\<rparr>" default_config "Fin 1" NaN]
  by (simp add: paired_def headless_detect_def py_sub_def)

text \<open>
  C3 as stated fails: after the sample \<open>(0, 100)\<close>, the sample \<open>(1, nan)\<close> changes
  \<open>last_t\<close> and \<open>last_y\<close>, and the sample \<open>(1, inf)\<close> also enters the window and
  signals a jump.
\<close>

theorem nonfinite_sample_counterexample:
  "headless_detect default_config \<lparr>deriv = [], last_t = Some (Fin 0), last_y = Some (Fin 100)\<rparr>
     (Fin 1) NaN =
     Inr (\<lparr>deriv = [], last_t = Some (Fin 1), last_y = Some NaN\<rparr>, False, None) \<and>
   \<lparr>deriv = [], last_t = Some (Fin 1), last_y = Some NaN\<rparr> \<noteq>
     \<lparr>deriv = [], last_t = Some (Fin 0), last_y = Some (Fin 100)\<rparr> \<and>
   headless_detect default_config \<lparr>deriv = [], last_t = Some (Fin 0), last_y = Some (Fin 100)\<rparr>
     (Fin 1) PInf =
     Inr (\<lparr>deriv = [PInf], last_t = Some (Fin 1), last_y = Some PInf\<rparr>, True, Some PInf)"
  by (simp add: default_config_def headless_detect_def py_sub_def py_max_def
      maxlen_def deque_append_def py_sum_def)






text \<open>
  C6: the first sample \<open>(t0, y0)\<close> on a fresh detector gives \<open>is_jump = False\<close> and
  no rate, appends nothing to the window, and records \<open>(t0, y0)\<close> in \<open>last_t\<close>,
  \<open>last_y\<close>.
\<close>

theorem first_sample_no_jump:
  "headless_detect cfg init_detector t0 y0 =
     Inr (\<lparr> deriv = [], last_t = Some t0, last_y = Some y0 \<rparr>, False, None)"
  by (simp add: headless_detect_def init_detector_def)

theorem first_sample_no_jump_witness:
  "headless_detect default_config init_detector (Fin 0) (Fin 100) =
     Inr (\<lparr> deriv = [], last_t = Some (Fin 0), last_y = Some (Fin 100) \<rparr>, False, None)"
  by (rule first_sample_no_jump)

text \<open>
  C7: the detection never raises, on any sequence of samples from the fresh detector
  (timestamps may repeat or decrease), and the loop never ends in an exception. On finite
  timestamps \<open>dt\<close> is the finite value \<open>max(1e-6, t - last_t)\<close>, so it is positive;
  the division by \<open>dt\<close> is always defined; and the window is never empty after the
  append, so the mean divides by a positive length.
\<close>

theorem update_never_raises:
  "(\<exists>st vs. detect_all cfg init_detector ss = Inr (st, vs) \<and> length vs = length ss) \<and>
   (\<forall>e. snd (run_headless cfg env ss) \<noteq> Failed e) \<and>
   py_max (Fin (1 / 1000000)) (py_sub (Fin a) (Fin b)) = Fin (max (1 / 1000000) (a - b)) \<and>
   (\<exists>q. py_truediv dy (py_max (Fin (1 / 1000000)) (py_sub t lt)) = Inr q) \<and>
   deque_append (maxlen cfg) w d \<noteq> []"
proof -
  have w0: "length (deriv init_detector) \<le> maxlen cfg" by (simp add: init_detector_def)
  have a: "\<exists>st vs. detect_all cfg init_detector ss = Inr (st, vs) \<and> length vs = length ss"
    using detect_all_total [OF paired_init w0, of ss] by blast
  obtain p where p: "period cfg = Inr p" using period_defined [of cfg] by blast
  have b: "\<forall>e. snd (run_headless cfg env ss) \<noteq> Failed e"
    using loop_never_fails [OF paired_init] p by (simp add: run_headless_def)
  have c: "py_max (Fin (1 / 1000000)) (py_sub (Fin a) (Fin b)) = Fin (max (1 / 1000000) (a - b))"
    by (rule clamp_dt_finite)
  have d: "\<exists>q. py_truediv dy (py_max (Fin (1 / 1000000)) (py_sub t lt)) = Inr q"
    using truediv_clamped [of "1 / 1000000" dy "py_sub t lt"] by simp
  have e: "deque_append (maxlen cfg) w d \<noteq> []"
    by (rule deque_append_nonempty [OF maxlen_pos])
  show ?thesis using a b c d e by blast
qed

theorem update_never_raises_witness:
  "detect_all default_config init_detector [(Fin 5, Fin 100), (Fin 5, Fin 50), (Fin 3, Fin 100)] =
     Inr (\<lparr>deriv = [Fin (- 50000000), Fin 50000000], last_t = Some (Fin 3), last_y = Some (Fin 100)\<rparr>,
          [(False, None), (True, Some (Fin (- 50000000))), (False, Some (Fin 0))])"
  using update_never_raises [of default_config "[(Fin 5, Fin 100), (Fin 5, Fin 50), (Fin 3, Fin 100)]"]
  by (simp add: default_config_def init_detector_def headless_detect_def py_sub_def py_max_def
      maxlen_def deque_append_def py_sum_def)

text \<open>
  C8: with \<open>LOCKSCREEN_ON_JUMP\<close> set, an iteration whose detection gives
  \<open>is_jump = True\<close> prints the lock message, calls \<open>pmset\<close> once and ends the
  loop with exit code 0, whatever samples would follow. This holds whether the call
  returns (with any exit status) or raises; when it raises, the error is printed and
  nothing is retried.
\<close>

theorem trigger_exits_zero:
  assumes "LOCKSCREEN_ON_JUMP cfg"
    and "headless_detect cfg st (fst s) (snd s) = Inr (st', True, r)"
  shows "\<exists>out. run_headless_tick cfg env st s = (out @ LockLine # fst (do_lockscreen env), Exit 0) \<and>
           headless_loop cfg env st (s # rest) = (out @ LockLine # fst (do_lockscreen env), Exited 0) \<and>
           PmsetCall \<notin> set out \<and>
           count_list (fst (do_lockscreen env)) PmsetCall = 1 \<and>
           do_lockscreen (Raised m) = ([PmsetCall, PmsetErrorLine m], 0)"
proof -
  have code: "snd (do_lockscreen env) = 0"
    and once: "count_list (fst (do_lockscreen env)) PmsetCall = 1"
    by (cases env; simp add: do_lockscreen_def)+
  let ?out = "case r of Some x \<Rightarrow> [JumpLine (fst s) (snd s) x] | None \<Rightarrow> []"
  have tick: "run_headless_tick cfg env st s = (?out @ LockLine # fst (do_lockscreen env), Exit 0)"
    using assms code by (cases r) (simp_all add: run_headless_tick_def Let_def)
  have loop: "headless_loop cfg env st (s # rest) =
      (?out @ LockLine # fst (do_lockscreen env), Exited 0)"
    using tick by simp
  have out: "PmsetCall \<notin> set ?out" by (cases r) simp_all
  have raised: "do_lockscreen (Raised m) = ([PmsetCall, PmsetErrorLine m], 0)"
    by (simp add: do_lockscreen_def)
  show ?thesis using tick loop out once raised by blast
qed

theorem trigger_exits_zero_witness:
  "LOCKSCREEN_ON_JUMP (default_config\<lparr>LOCKSCREEN_ON_JUMP := True\<rparr>) \<and>
   headless_detect (default_config\<lparr>LOCKSCREEN_ON_JUMP := True\<rparr>)
     \<lparr>deriv = [], last_t = Some (Fin 0), last_y = Some (Fin 100)\<rparr> (Fin (4 / 100)) (Fin 50) =
     Inr (\<lparr>deriv = [Fin (- 1250)], last_t = Some (Fin (4 / 100)), last_y = Some (Fin 50)\<rparr>,
          True, Some (Fin (- 1250))) \<and>
   headless_loop (default_config\<lparr>LOCKSCREEN_ON_JUMP := True\<rparr>) (Raised ''no pmset'')
     \<lparr>deriv = [], last_t = Some (Fin 0), last_y = Some (Fin 100)\<rparr>
     [(Fin (4 / 100), Fin 50), (Fin (8 / 100), Fin 50)] =
     ([JumpLine (Fin (4 / 100)) (Fin 50) (Fin (- 1250)), LockLine, PmsetCall,
       PmsetErrorLine ''no pmset''], Exited 0)"
proof -
  let ?cfg = "default_config\<lparr>LOCKSCREEN_ON_JUMP := True\<rparr>"
  let ?st = "\<lparr>deriv = [], last_t = Some (Fin 0), last_y = Some (Fin 100)\<rparr>"
  have a: "LOCKSCREEN_ON_JUMP ?cfg" by simp
  have b: "headless_detect ?cfg ?st (fst (Fin (4 / 100), Fin 50)) (snd (Fin (4 / 100), Fin 50)) =
     Inr (\<lparr>deriv = [Fin (- 1250)], last_t = Some (Fin (4 / 100)), last_y = Some (Fin 50)\<rparr>,
          True, Some (Fin (- 1250)))"
    by (simp add: default_config_def headless_detect_def py_sub_def py_max_def
        maxlen_def deque_append_def py_sum_def)
  show ?thesis
    using a b trigger_exits_zero [OF a b, of "Raised ''no pmset''" "[(Fin (8 / 100), Fin 50)]"
        "''no pmset''"]
    by (auto simp: do_lockscreen_def run_headless_tick_def)
qed



text \<open>
  C10, as the code has it: the detection in \<open>run_headless\<close> and the detection in the
  closure of \<open>run_with_plot\<close> are the same computation on the differences of
  timestamps. On the same sequence of clock and sensor readings they give the same
  \<open>is_jump\<close> and the same \<open>rate\<close> at every reading, and end with the same window,
  whenever \<open>(t - t0) - (last_t - t0)\<close> and \<open>t - last_t\<close> are the same float at every
  reading; that is so when the subtractions of \<open>t0\<close> are exact.
\<close>

theorem plot_same_when_dt_same:
  assumes "same_dt t0 tm0 ss"
  shows "\<exists>ps st vs. detect_all_f64 cfg init_detector ((tm0, y0) # ss) = Inr (st, vs) \<and>
           plot_detect_all_f64 cfg t0 init_plot ((tm0, y0) # ss) = Inr (ps, vs) \<and>
           length vs = Suc (length ss) \<and> deriv ps = deriv st \<and> last_y ps = last_y st"
proof -
  let ?st0 = "\<lparr>deriv = [], last_t = Some tm0, last_y = Some y0\<rparr>"
  let ?ps0 = "\<lparr>deriv = [], last_t = Some (f64_sub tm0 t0), last_y = Some y0,
               xs = [], ys = [], jx = [], jy = []\<rparr>"
  have p: "paired ?st0" by (simp add: paired_def)
  obtain st vs where run: "detect_all_f64 cfg ?st0 ss = Inr (st, vs)" and len: "length vs = length ss"
    using detect_all_f64_total [OF p, of cfg ss] by blast
  have rel: "same_detector_f64 t0 ?ps0 ?st0" by (simp add: same_detector_f64_def)
  have l: "last_t ?st0 = Some tm0" by simp
  obtain ps where prun: "plot_detect_all_f64 cfg t0 ?ps0 ss = Inr (ps, vs)"
      and rel': "same_detector_f64 t0 ps st"
    using plot_f64_run_sim [OF rel l assms run] by blast
  have "detect_all_f64 cfg init_detector ((tm0, y0) # ss) = Inr (st, (False, None) # vs)"
    using run by (simp add: detect_f64_first)
  moreover have "plot_detect_all_f64 cfg t0 init_plot ((tm0, y0) # ss) = Inr (ps, (False, None) # vs)"
    using prun by (simp add: plot_detect_f64_first)
  ultimately show ?thesis using len rel' by (auto simp: same_detector_f64_def)
qed

theorem plot_same_when_dt_same_witness:
  "same_dt (Fin 999) (Fin 1000) [(Fin (2001 / 2), Fin 50)] \<and>
   detect_all_f64 default_config init_detector [(Fin 1000, Fin 100), (Fin (2001 / 2), Fin 50)] =
     Inr (\<lparr>deriv = [Fin (- 100)], last_t = Some (Fin (2001 / 2)), last_y = Some (Fin 50)\<rparr>,
          [(False, None), (True, Some (Fin (- 100)))]) \<and>
   plot_detect_all_f64 default_config (Fin 999) init_plot
       [(Fin 1000, Fin 100), (Fin (2001 / 2), Fin 50)] =
     Inr (\<lparr>deriv = [Fin (- 100)], last_t = Some (Fin (3 / 2)), last_y = Some (Fin 50),
            xs = [], ys = [], jx = [Fin (3 / 2)], jy = [Fin 50]\<rparr>,
          [(False, None), (True, Some (Fin (- 100)))])"
  using plot_same_when_dt_same [of "Fin 999" "Fin 1000" "[(Fin (2001 / 2), Fin 50)]"
      default_config "Fin 100"]
  by (simp add: headless_detect_f64_def plot_detect_f64_def f64_eval)

text \<open>
  C10 as stated fails: the subtraction of \<open>t0\<close> is rounded. With \<open>t0 = 0.3\<close> and the
  readings \<open>(2.0, 0.0)\<close>, \<open>(3.0, 1.0)\<close>, \<open>run_headless\<close> has \<open>dt = 1.0\<close>,
  \<open>rate = 1.0\<close> and signals a jump; the closure has
  \<open>dt = (3.0 - 0.3) - (2.0 - 0.3) = 1.0000000000000002\<close>, \<open>rate = 0.9999999999999998\<close>
  and signals none.
\<close>

theorem plot_shift_counterexample:
  "is_f64 (5404319552844595 / 2 ^ 54) \<and>
   detect_all_f64 default_config init_detector [(Fin 2, Fin 0), (Fin 3, Fin 1)] =
     Inr (\<lparr>deriv = [Fin 1], last_t = Some (Fin 3), last_y = Some (Fin 1)\<rparr>,
          [(False, None), (True, Some (Fin 1))]) \<and>
   plot_detect_all_f64 default_config (Fin (5404319552844595 / 2 ^ 54)) init_plot
       [(Fin 2, Fin 0), (Fin 3, Fin 1)] =
     Inr (\<lparr>deriv = [Fin (4503599627370495 / 2 ^ 52)],
            last_t = Some (Fin (3039929748475085 / 2 ^ 50)), last_y = Some (Fin 1),
            xs = [], ys = [], jx = [], jy = []\<rparr>,
          [(False, None), (False, Some (Fin (4503599627370495 / 2 ^ 52)))])"
  by (simp add: headless_detect_f64_def plot_detect_f64_def is_f64_def f64_eval)

end
